theory Spec2Isabelle
  imports Complex_Main
begin

section \<open>Data model of place\_objects.py\<close>

text \<open>
  Python's unbounded integers are \<open>int\<close>. The float-valued tunables (delays, confidence)
  are only handed on to the libraries and compared with zero by \<open>time.sleep\<close>; they are
  modelled as \<open>real\<close>. A path is its string.
\<close>

type_synonym rgb = "int \<times> int \<times> int"
type_synonym point = "int \<times> int"

text \<open>\<open>pyautogui.Box\<close>: the rectangle a template match returns.\<close>

record Box =
  box_left :: int
  box_top :: int
  box_width :: int
  box_height :: int

text \<open>The dataclass \<open>PlacementConfig\<close>, field by field.\<close>

record PlacementConfig =
  anchor_template :: string
  row_height :: int
  list_offset_x :: int
  list_offset_y :: int
  screen_height :: "int option"
  spacing_pixels :: int
  per_row :: int
  click_delay :: real
  place_delay :: real
  scroll_clicks_per_row :: int
  scroll_delay :: real
  limit :: "int option"
  confidence :: real
  placement_origin :: "point option"
  category_color :: "rgb option"
  category_color_tolerance :: int
  category_icon_offset_x :: int
  item_color :: "rgb option"
  item_color_tolerance :: int
  item_color_offset_x :: int
  item_color_offset_y :: int
  require_item_color :: bool
  dry_run :: bool

text \<open>
  Every call that leaves the program (the automation library, the file system, the clock,
  the console) is recorded as an event, in the order of the calls.
\<close>

datatype event =
    PathExists string
  | LocateOnScreen string real
  | Position
  | Size
  | PixelMatchesColor int int rgb int
  | Scroll int int int
  | Sleep real
  | MoveTo int int
  | Click
  | Print string

text \<open>
  The world the program runs in: what each query answers. A pixel sample may change
  between two calls, so its answer depends on the events so far; \<open>None\<close> is a raised
  exception (of class \<open>Exception\<close>), as is \<open>None\<close> for the screen size.
  \<open>locateOnScreen\<close> answers \<open>None\<close> when the template is not on screen.
  The calls that act on the screen (\<open>scroll\<close>, \<open>moveTo\<close>, \<open>click\<close>) and
  \<open>position\<close> are taken to return normally; an interrupt by the user
  (\<open>KeyboardInterrupt\<close>, the fail-safe corner) is not part of the model.
\<close>

record world =
  path_exists :: "string \<Rightarrow> bool"
  locate_on_screen :: "string \<Rightarrow> real \<Rightarrow> Box option"
  pointer_position :: point
  size_height :: "int option"
  pixel_matches_color :: "event list \<Rightarrow> int \<Rightarrow> int \<Rightarrow> rgb \<Rightarrow> int \<Rightarrow> bool option"

text \<open>
  The exceptions the script can raise; \<open>AttributeError\<close> carries the name of the missing
  attribute.
\<close>

datatype py_error = RuntimeError string | AttributeError string | ZeroDivisionError | ValueError

text \<open>
  A computation either raises, \<open>Inl (e, tr)\<close> with the events performed before the
  raise, or returns a value.
\<close>

type_synonym 'a result = "(py_error \<times> event list) + 'a"

datatype py_value = PyNone | PyInt int

section \<open>Formatting of the printed lines\<close>

fun show_nat :: "nat \<Rightarrow> string" where
  "show_nat n =
     (if n < 10 then [''0123456789'' ! n]
      else show_nat (n div 10) @ [''0123456789'' ! (n mod 10)])"

declare show_nat.simps [simp del]

definition show_int :: "int \<Rightarrow> string" where
  "show_int i = (if i < 0 then CHR ''-'' # show_nat (nat (- i)) else show_nat (nat i))"

text \<open>\<open>str\<close> of a pair of integers, as an f-string renders a tuple.\<close>

definition show_point :: "point \<Rightarrow> string" where
  "show_point p = ''('' @ show_int (fst p) @ '', '' @ show_int (snd p) @ '')''"

section \<open>The functions of the script\<close>

text \<open>\<open>locate_anchor\<close> (lines 55-73): both failures raise \<open>RuntimeError\<close>.\<close>

definition locate_anchor :: "world \<Rightarrow> event list \<Rightarrow> string \<Rightarrow> real \<Rightarrow> (Box \<times> event list) result" where
  "locate_anchor w tr template conf =
     (if \<not> path_exists w template
      then Inl (RuntimeError (''anchor template not found: '' @ template), tr @ [PathExists template])
      else (case locate_on_screen w template conf of
              None \<Rightarrow> Inl (RuntimeError
                             ''Could not find anchor on screen. Make sure the 3DEN object browser is visible and matches the template screenshot.'',
                           tr @ [PathExists template, LocateOnScreen template conf])
            | Some location \<Rightarrow> Inr (location, tr @ [PathExists template, LocateOnScreen template conf])))"

text \<open>\<open>safe_screen_height\<close> (lines 76-82), with its default of 1080.\<close>

definition safe_screen_height :: "world \<Rightarrow> event list \<Rightarrow> int \<times> event list" where
  "safe_screen_height w tr =
     (case size_height w of Some h \<Rightarrow> (h, tr @ [Size]) | None \<Rightarrow> (1080, tr @ [Size]))"

text \<open>\<open>is_category_row\<close> (lines 85-106).\<close>

definition is_category_row :: "world \<Rightarrow> event list \<Rightarrow> int \<Rightarrow> int \<Rightarrow> PlacementConfig \<Rightarrow> bool \<times> event list" where
  "is_category_row w tr list_x list_y cfg =
     (case category_color cfg of
        None \<Rightarrow> (False, tr)
      | Some c \<Rightarrow>
          (let icon_x = list_x + category_icon_offset_x cfg;
               tr' = tr @ [PixelMatchesColor icon_x list_y c (category_color_tolerance cfg)]
           in case pixel_matches_color w tr icon_x list_y c (category_color_tolerance cfg) of
                Some b \<Rightarrow> (b, tr')
              | None \<Rightarrow> (False, tr')))"

text \<open>\<open>row_has_item_color\<close> (lines 109-131).\<close>

definition row_has_item_color :: "world \<Rightarrow> event list \<Rightarrow> int \<Rightarrow> int \<Rightarrow> PlacementConfig \<Rightarrow> bool \<times> event list" where
  "row_has_item_color w tr list_x list_y cfg =
     (case item_color cfg of
        None \<Rightarrow> (True, tr)
      | Some c \<Rightarrow>
          (if \<not> require_item_color cfg then (True, tr)
           else
             (let sample_x = list_x + item_color_offset_x cfg;
                  sample_y = list_y + item_color_offset_y cfg;
                  tr' = tr @ [PixelMatchesColor sample_x sample_y c (item_color_tolerance cfg)]
              in case pixel_matches_color w tr sample_x sample_y c (item_color_tolerance cfg) of
                   Some b \<Rightarrow> (b, tr')
                 | None \<Rightarrow> (False, tr'))))"

text \<open>\<open>time.sleep\<close>: a negative duration raises \<open>ValueError\<close>.\<close>

definition sleep :: "real \<Rightarrow> event list \<Rightarrow> (event list) result" where
  "sleep d tr = (if d < 0 then Inl (ValueError, tr) else Inr (tr @ [Sleep d]))"

subsection \<open>place\_objects: the part before the loop\<close>

text \<open>The locals fixed before the loop starts (lines 137-150).\<close>

record layout =
  list_start_x :: int
  list_start_y :: int
  origin :: point
  visible_rows :: int

text \<open>
  Line 147: \<open>cfg.placement_origin or pyautogui.position()\<close>. A pair is never falsy, so
  the pointer is read exactly when no origin is configured.
\<close>

definition resolve_origin :: "PlacementConfig \<Rightarrow> world \<Rightarrow> event list \<Rightarrow> point \<times> event list" where
  "resolve_origin cfg w tr =
     (case placement_origin cfg of
        Some p \<Rightarrow> (p, tr)
      | None \<Rightarrow> (pointer_position w, tr @ [Position]))"

text \<open>
  Line 149: \<open>cfg.screen_height or safe_screen_height()\<close>. The screen is asked when the
  configured height is \<open>None\<close> or zero.
\<close>

definition resolve_screen_height :: "PlacementConfig \<Rightarrow> world \<Rightarrow> event list \<Rightarrow> int \<times> event list" where
  "resolve_screen_height cfg w tr =
     (case screen_height cfg of
        Some h \<Rightarrow> (if h \<noteq> 0 then (h, tr) else safe_screen_height w tr)
      | None \<Rightarrow> safe_screen_height w tr)"

text \<open>
  Lines 137-150. In dry-run mode line 138 evaluates \<open>pyautogui.Box(0, 0, 0, 0)\<close>, and the
  module \<open>pyautogui\<close> has no attribute \<open>Box\<close> (the named tuple of that name belongs to
  \<open>pyscreeze\<close>; \<open>pyautogui\<close> defines only \<open>Point\<close> and \<open>Size\<close>): the lookup raises
  \<open>AttributeError\<close> before anything else happens. The annotation of \<open>locate_anchor\<close>
  names the same attribute but is never evaluated (line 14). Outside dry-run the anchor is
  located; floor division by a zero row height raises. Line 143 sets the library's
  \<open>FAILSAFE\<close> flag, which no value computed here depends on.
\<close>

definition place_setup :: "PlacementConfig \<Rightarrow> world \<Rightarrow> (layout \<times> event list) result" where
  "place_setup cfg w =
     (case (if dry_run cfg then Inl (AttributeError ''Box'', [])
            else locate_anchor w [] (anchor_template cfg) (confidence cfg)) of
        Inl e \<Rightarrow> Inl e
      | Inr (anchor, tr0) \<Rightarrow>
          (let lsx = box_left anchor + list_offset_x cfg;
               lsy = box_top anchor + list_offset_y cfg;
               (po, tr1) = resolve_origin cfg w tr0;
               (sh, tr2) = resolve_screen_height cfg w tr1
           in if row_height cfg = 0 then Inl (ZeroDivisionError, tr2)
              else Inr (\<lparr>list_start_x = lsx, list_start_y = lsy, origin = po,
                          visible_rows = max 1 ((sh - lsy) div row_height cfg)\<rparr>, tr2)))"

subsection \<open>place\_objects: the loop\<close>

text \<open>The locals the loop updates (lines 152-154), and the events so far.\<close>

record loop_state =
  scroll_rows_consumed :: int
  placed :: int
  index :: int
  trace :: "event list"

definition init_state :: "event list \<Rightarrow> loop_state" where
  "init_state tr = \<lparr>scroll_rows_consumed = 0, placed = 0, index = 0, trace = tr\<rparr>"

text \<open>The loop condition (line 156).\<close>

definition loop_cond :: "PlacementConfig \<Rightarrow> loop_state \<Rightarrow> bool" where
  "loop_cond cfg s = (case limit cfg of None \<Rightarrow> True | Some l \<Rightarrow> placed s < l)"

text \<open>
  Scroll reconciliation (lines 157-165): returns the row in view and the state with the
  scroll recorded.
\<close>

definition scroll_step :: "PlacementConfig \<Rightarrow> layout \<Rightarrow> loop_state \<Rightarrow> (int \<times> loop_state) result" where
  "scroll_step cfg su s =
     (let row_in_view = index s - scroll_rows_consumed s
      in if row_in_view \<ge> visible_rows su then
           (let rows_to_scroll = row_in_view - visible_rows su + 1;
                scroll_amount = - scroll_clicks_per_row cfg * rows_to_scroll
            in case (if \<not> dry_run cfg
                     then sleep (scroll_delay cfg)
                            (trace s @ [Scroll scroll_amount (list_start_x su) (list_start_y su)])
                     else Inr (trace s)) of
                 Inl e \<Rightarrow> Inl e
               | Inr tr \<Rightarrow>
                   (let s' = s\<lparr>scroll_rows_consumed := scroll_rows_consumed s + rows_to_scroll,
                                trace := tr\<rparr>
                    in Inr (index s' - scroll_rows_consumed s', s')))
         else Inr (row_in_view, s))"

text \<open>The grid position of the next placement (lines 178-183).\<close>

definition world_pos :: "PlacementConfig \<Rightarrow> point \<Rightarrow> int \<Rightarrow> py_error + point" where
  "world_pos cfg po n =
     (if per_row cfg = 0 then Inl ZeroDivisionError
      else (let col = n mod per_row cfg;
                row = n div per_row cfg
            in Inr (fst po + col * spacing_pixels cfg, snd po + row * spacing_pixels cfg)))"

text \<open>Selecting the entry and placing it (lines 185-194).\<close>

definition click_and_place :: "PlacementConfig \<Rightarrow> point \<Rightarrow> point \<Rightarrow> event list \<Rightarrow> (event list) result" where
  "click_and_place cfg list_pos wpos tr =
     (if dry_run cfg
      then Inr (tr @ [Print (''Would click list entry at '' @ show_point list_pos
                             @ '' and place at '' @ show_point wpos)])
      else (case sleep (click_delay cfg) (tr @ [MoveTo (fst list_pos) (snd list_pos), Click]) of
              Inl e \<Rightarrow> Inl e
            | Inr tr1 \<Rightarrow> sleep (place_delay cfg) (tr1 @ [MoveTo (fst wpos) (snd wpos), Click])))"

text \<open>One iteration of the loop (lines 157-197).\<close>

definition loop_body :: "PlacementConfig \<Rightarrow> world \<Rightarrow> layout \<Rightarrow> loop_state \<Rightarrow> loop_state result" where
  "loop_body cfg w su s =
     (case scroll_step cfg su s of
        Inl e \<Rightarrow> Inl e
      | Inr (row_in_view, s1) \<Rightarrow>
          (let list_pos = (list_start_x su, list_start_y su + row_in_view * row_height cfg);
               (is_cat, tr2) = (if \<not> dry_run cfg
                                then is_category_row w (trace s1) (fst list_pos) (snd list_pos) cfg
                                else (False, trace s1))
           in if is_cat then Inr (s1\<lparr>index := index s1 + 1, trace := tr2\<rparr>)
              else
                (let (has_item, tr3) = (if \<not> dry_run cfg
                                        then row_has_item_color w tr2 (fst list_pos) (snd list_pos) cfg
                                        else (True, tr2))
                 in if \<not> has_item
                    then Inr (s1\<lparr>index := index s1 + 1,
                                  trace := tr3 @ [Print (''Skipping row '' @ show_int (index s1)
                                                   @ '': item color not detected at ''
                                                   @ show_point list_pos @ ''.'')]\<rparr>)
                    else (case world_pos cfg (origin su) (placed s1) of
                            Inl e \<Rightarrow> Inl (e, tr3)
                          | Inr wpos \<Rightarrow>
                              (case click_and_place cfg list_pos wpos tr3 of
                                 Inl e \<Rightarrow> Inl e
                               | Inr tr4 \<Rightarrow>
                                   Inr (s1\<lparr>placed := placed s1 + 1, index := index s1 + 1,
                                           trace := tr4\<rparr>))))))"

text \<open>
  The loop, run for at most \<open>n\<close> iterations: the state at the head of the loop after
  them (or the final state, when the condition failed earlier), or the exception raised.
\<close>

fun loop_steps :: "nat \<Rightarrow> PlacementConfig \<Rightarrow> world \<Rightarrow> layout \<Rightarrow> loop_state \<Rightarrow> loop_state result" where
  "loop_steps 0 cfg w su s = Inr s"
| "loop_steps (Suc n) cfg w su s =
     (if loop_cond cfg s
      then (case loop_body cfg w su s of
              Inl e \<Rightarrow> Inl e
            | Inr s' \<Rightarrow> loop_steps n cfg w su s')
      else Inr s)"

text \<open>
  The \<open>while\<close> loop with fuel: \<open>None\<close> when the condition still holds after \<open>n\<close>
  iterations (the loop has not returned yet).
\<close>

definition while_loop :: "nat \<Rightarrow> PlacementConfig \<Rightarrow> world \<Rightarrow> layout \<Rightarrow> loop_state \<Rightarrow> (loop_state result) option" where
  "while_loop n cfg w su s =
     (case loop_steps n cfg w su s of
        Inl e \<Rightarrow> Some (Inl e)
      | Inr s' \<Rightarrow> (if loop_cond cfg s' then None else Some (Inr s')))"

text \<open>
  \<open>place_objects\<close> (lines 134-197). The function has no \<open>return\<close> statement: when the
  loop ends it returns \<open>None\<close>. The final locals are given beside the returned value.
\<close>

definition place_objects :: "nat \<Rightarrow> PlacementConfig \<Rightarrow> world \<Rightarrow> ((py_value \<times> loop_state) result) option" where
  "place_objects n cfg w =
     (case place_setup cfg w of
        Inl e \<Rightarrow> Some (Inl e)
      | Inr (su, tr) \<Rightarrow>
          (case while_loop n cfg w su (init_state tr) of
             None \<Rightarrow> None
           | Some (Inl e) \<Rightarrow> Some (Inl e)
           | Some (Inr s) \<Rightarrow> Some (Inr (PyNone, s))))"

section \<open>Concrete inputs\<close>

text \<open>The defaults of the dataclass, for a given anchor template.\<close>

definition default_config :: "string \<Rightarrow> PlacementConfig" where
  "default_config t =
     \<lparr>anchor_template = t, row_height = 26, list_offset_x = 10, list_offset_y = 40,
      screen_height = None, spacing_pixels = 120, per_row = 15, click_delay = 1 / 20,
      place_delay = 1 / 10, scroll_clicks_per_row = 3, scroll_delay = 3 / 20, limit = None,
      confidence = 9 / 10, placement_origin = None, category_color = None,
      category_color_tolerance = 8, category_icon_offset_x = - 14,
      item_color = Some (142, 125, 18), item_color_tolerance = 10, item_color_offset_x = 26,
      item_color_offset_y = 12, require_item_color = True, dry_run = False\<rparr>"

text \<open>A world where the anchor sits at the top left corner and every pixel sample answers \<open>r\<close>.\<close>

definition const_world :: "bool option \<Rightarrow> world" where
  "const_world r =
     \<lparr>path_exists = (\<lambda>_. True),
      locate_on_screen = (\<lambda>_ _. Some \<lparr>box_left = 0, box_top = 0, box_width = 200, box_height = 30\<rparr>),
      pointer_position = (500, 300),
      size_height = Some 1080,
      pixel_matches_color = (\<lambda>_ _ _ _ _. r)\<rparr>"

definition two_row_config :: PlacementConfig where
  "two_row_config =
     (default_config ''anchor.png'')\<lparr>screen_height := Some 92, placement_origin := Some (0, 0)\<rparr>"

definition two_row_layout :: layout where
  "two_row_layout = \<lparr>list_start_x = 10, list_start_y = 40, origin = (0, 0), visible_rows = 2\<rparr>"

definition anchor_trace :: "event list" where
  "anchor_trace = [PathExists ''anchor.png'', LocateOnScreen ''anchor.png'' (9 / 10)]"

text \<open>The events of placing the first two rows of \<open>two_row_config\<close>.\<close>

definition two_row_trace :: "event list" where
  "two_row_trace =
     anchor_trace @
     [PixelMatchesColor 36 52 (142, 125, 18) 10, MoveTo 10 40, Click, Sleep (1 / 20),
      MoveTo 0 0, Click, Sleep (1 / 10),
      PixelMatchesColor 36 78 (142, 125, 18) 10, MoveTo 10 66, Click, Sleep (1 / 20),
      MoveTo 120 0, Click, Sleep (1 / 10)]"

text \<open>
  A configuration with a category colour on a screen of height 1080, and the layout its
  setup computes when the anchor is at the top left corner.
\<close>

definition category_config :: PlacementConfig where
  "category_config = (default_config ''anchor.png'')\<lparr>screen_height := Some 1080,
      placement_origin := Some (0, 0), category_color := Some (200, 200, 200)\<rparr>"

definition full_layout :: layout where
  "full_layout = \<lparr>list_start_x = 10, list_start_y = 40, origin = (0, 0), visible_rows = 40\<rparr>"

text \<open>
  A world where the samples of the category colour (200, 200, 200) raise and the samples of
  the default item colour match.
\<close>

definition flaky_world :: world where
  "flaky_world =
     \<lparr>path_exists = (\<lambda>_. True),
      locate_on_screen = (\<lambda>_ _. Some \<lparr>box_left = 0, box_top = 0, box_width = 200, box_height = 30\<rparr>),
      pointer_position = (500, 300),
      size_height = Some 1080,
      pixel_matches_color = (\<lambda>_ _ _ c _. if c = (142, 125, 18) then Some True else None)\<rparr>"

text \<open>The defaults in dry-run mode, with a limit of one placement.\<close>

definition dry_config :: PlacementConfig where
  "dry_config = (default_config ''anchor.png'')\<lparr>dry_run := True, limit := Some 1\<rparr>"

text \<open>Two rows visible, with a limit of one placement, and of two with \<open>per_row = 0\<close>.\<close>

definition single_config :: PlacementConfig where
  "single_config = two_row_config\<lparr>limit := Some 1\<rparr>"


text \<open>
  A world whose first row (y = 40) shows the category colour, whose second row (item sample at
  y = 78) lacks the item colour, and whose other rows are plain items; the configuration
  run in it, with a limit of two placements, and the events of that run after the anchor.
\<close>

definition mixed_world :: world where
  "mixed_world =
     \<lparr>path_exists = (\<lambda>_. True),
      locate_on_screen = (\<lambda>_ _. Some \<lparr>box_left = 0, box_top = 0, box_width = 200, box_height = 30\<rparr>),
      pointer_position = (500, 300),
      size_height = Some 1080,
      pixel_matches_color =
        (\<lambda>_ _ y c _. if c = (200, 200, 200) then Some (y = 40) else Some (y \<noteq> 78))\<rparr>"

definition mixed_config :: PlacementConfig where
  "mixed_config = category_config\<lparr>limit := Some 2\<rparr>"

definition mixed_trace :: "event list" where
  "mixed_trace =
     anchor_trace @
     [PixelMatchesColor (- 4) 40 (200, 200, 200) 8,
      PixelMatchesColor (- 4) 66 (200, 200, 200) 8,
      PixelMatchesColor 36 78 (142, 125, 18) 10,
      Print ''Skipping row 1: item color not detected at (10, 66).'',
      PixelMatchesColor (- 4) 92 (200, 200, 200) 8,
      PixelMatchesColor 36 104 (142, 125, 18) 10,
      MoveTo 10 92, Click, Sleep (1 / 20), MoveTo 0 0, Click, Sleep (1 / 10),
      PixelMatchesColor (- 4) 118 (200, 200, 200) 8,
      PixelMatchesColor 36 130 (142, 125, 18) 10,
      MoveTo 10 118, Click, Sleep (1 / 20), MoveTo 120 0, Click, Sleep (1 / 10)]"

section \<open>Observations on states and traces\<close>

text \<open>
  The row in view at the head of the loop lies between 0 and the number of visible rows
  (inclusive: the scroll step brings it back below).
\<close>

definition in_window :: "layout \<Rightarrow> loop_state \<Rightarrow> bool" where
  "in_window su s =
     (0 \<le> index s - scroll_rows_consumed s \<and> index s - scroll_rows_consumed s \<le> visible_rows su)"

text \<open>The events performed by a run of the loop, whether it raised or not.\<close>

definition result_trace :: "loop_state result \<Rightarrow> event list" where
  "result_trace r = (case r of Inl (e, tr) \<Rightarrow> tr | Inr s \<Rightarrow> trace s)"

fun is_scroll :: "event \<Rightarrow> bool" where
  "is_scroll (Scroll a x y) = True"
| "is_scroll e = False"

fun is_print :: "event \<Rightarrow> bool" where
  "is_print (Print l) = True"
| "is_print e = False"


text \<open>
  Every scroll command in a trace scrolls by one row: \<open>- scroll_clicks_per_row\<close> wheel
  clicks, at the start of the list.
\<close>

definition scrolls_ok :: "PlacementConfig \<Rightarrow> layout \<Rightarrow> event list \<Rightarrow> bool" where
  "scrolls_ok cfg su tr =
     list_all (\<lambda>e. is_scroll e \<longrightarrow>
                 e = Scroll (- scroll_clicks_per_row cfg) (list_start_x su) (list_start_y su)) tr"

text \<open>
  The events of a run of \<open>place_objects\<close> cut off after at most \<open>n\<close> iterations, whether
  the setup raised, the loop raised, ended, or is still running.
\<close>

definition run_trace :: "nat \<Rightarrow> PlacementConfig \<Rightarrow> world \<Rightarrow> event list" where
  "run_trace n cfg w =
     (case place_setup cfg w of
        Inl (e, tr) \<Rightarrow> tr
      | Inr (su, tr) \<Rightarrow> result_trace (loop_steps n cfg w su (init_state tr)))"

text \<open>
  The class the two tests of lines 169 and 173 give a row, under the names of the
  specification: a row that passes the category test is a category; otherwise a row that
  fails the item-colour test lacks the item signal; otherwise it is valid.
\<close>

datatype row_class = Category | MissingItemSignal | Valid

definition classify :: "PlacementConfig \<Rightarrow> world \<Rightarrow> event list \<Rightarrow> point \<Rightarrow> row_class" where
  "classify cfg w tr list_pos =
     (let (is_cat, tr2) = (if \<not> dry_run cfg
                           then is_category_row w tr (fst list_pos) (snd list_pos) cfg
                           else (False, tr))
      in if is_cat then Category
         else (let (has_item, tr3) = (if \<not> dry_run cfg
                                      then row_has_item_color w tr2 (fst list_pos) (snd list_pos) cfg
                                      else (True, tr2))
               in if \<not> has_item then MissingItemSignal else Valid))"

text \<open>
  The class of the row an iteration starting in state \<open>s\<close> looks at, after its scroll step
  (\<open>None\<close> when the scroll step raises).
\<close>

definition row_class_at :: "PlacementConfig \<Rightarrow> world \<Rightarrow> layout \<Rightarrow> loop_state \<Rightarrow> row_class option" where
  "row_class_at cfg w su s =
     (case scroll_step cfg su s of
        Inl e \<Rightarrow> None
      | Inr (row_in_view, s1) \<Rightarrow>
          Some (classify cfg w (trace s1)
                  (list_start_x su, list_start_y su + row_in_view * row_height cfg)))"

section \<open>Facts about the loop\<close>

lemmas eval_defs = loop_body_def scroll_step_def is_category_row_def row_has_item_color_def
  world_pos_def click_and_place_def sleep_def loop_cond_def init_state_def Let_def

lemmas input_defs = default_config_def const_world_def two_row_config_def two_row_layout_def
  anchor_trace_def two_row_trace_def

lemma loop_steps_add:
  "loop_steps (n + m) cfg w su s =
     (case loop_steps n cfg w su s of Inl e \<Rightarrow> Inl e | Inr s' \<Rightarrow> loop_steps m cfg w su s')"
proof (induction n arbitrary: s)
  case 0
  then show ?case by simp
next
  case (Suc n)
  show ?case
  proof (cases "loop_cond cfg s")
    case True
    then show ?thesis using Suc by (simp split: sum.splits)
  next
    case False
    then show ?thesis by (cases m) simp_all
  qed
qed


lemma place_setup_visible:
  assumes "place_setup cfg w = Inr (su, tr)"
  shows "1 \<le> visible_rows su"
  using assms
  by (auto simp: place_setup_def Let_def split: if_splits sum.splits prod.splits)

lemma place_setup_rows:
  assumes "place_setup cfg w = Inr (su, tr)"
  shows "visible_rows su =
           max 1 ((fst (resolve_screen_height cfg w []) - list_start_y su) div row_height cfg)"
  using assms
  by (auto simp: place_setup_def resolve_screen_height_def safe_screen_height_def Let_def
           split: if_splits sum.splits prod.splits option.splits)

lemma in_window_init: "1 \<le> visible_rows su \<Longrightarrow> in_window su (init_state tr)"
  by (simp add: in_window_def init_state_def)

lemma scroll_step_window:
  assumes "1 \<le> visible_rows su" and "in_window su s" and "scroll_step cfg su s = Inr (riv, s1)"
  shows "riv = index s1 - scroll_rows_consumed s1 \<and> 0 \<le> riv \<and> riv < visible_rows su
         \<and> index s1 = index s \<and> placed s1 = placed s
         \<and> scroll_rows_consumed s \<le> scroll_rows_consumed s1"
  using assms
  by (auto simp: scroll_step_def in_window_def Let_def split: if_splits sum.splits)

lemma loop_body_window:
  assumes "1 \<le> visible_rows su" and "in_window su s" and "loop_body cfg w su s = Inr s'"
  shows "in_window su s' \<and> scroll_rows_consumed s \<le> scroll_rows_consumed s'
         \<and> index s' = index s + 1
         \<and> (placed s' = placed s \<or> placed s' = placed s + 1)"
proof -
  from assms(3) obtain riv s1 where ss: "scroll_step cfg su s = Inr (riv, s1)"
    by (auto simp: loop_body_def split: sum.splits)
  from scroll_step_window [OF assms(1,2) ss]
  have f: "riv = index s1 - scroll_rows_consumed s1" "0 \<le> riv" "riv < visible_rows su"
    "index s1 = index s" "placed s1 = placed s" "scroll_rows_consumed s \<le> scroll_rows_consumed s1"
    by simp_all
  from assms(3) ss have
    "scroll_rows_consumed s' = scroll_rows_consumed s1 \<and> index s' = index s1 + 1
     \<and> (placed s' = placed s1 \<or> placed s' = placed s1 + 1)"
    by (auto simp: loop_body_def Let_def split: sum.splits prod.splits if_splits)
  with f show ?thesis by (auto simp: in_window_def)
qed

lemma loop_steps_window:
  assumes "1 \<le> visible_rows su" and "in_window su s" and "loop_steps n cfg w su s = Inr s'"
  shows "in_window su s' \<and> scroll_rows_consumed s \<le> scroll_rows_consumed s'
         \<and> index s \<le> index s' \<and> placed s \<le> placed s'"
  using assms(2,3)
proof (induction n arbitrary: s)
  case 0
  then show ?case by simp
next
  case (Suc n)
  show ?case
  proof (cases "loop_cond cfg s")
    case False
    with Suc.prems show ?thesis by simp
  next
    case True
    with Suc.prems obtain s1 where b: "loop_body cfg w su s = Inr s1"
      and r: "loop_steps n cfg w su s1 = Inr s'"
      by (auto split: sum.splits)
    from loop_body_window [OF assms(1) Suc.prems(1) b] Suc.IH [OF _ r]
    show ?thesis by auto
  qed
qed

lemma scroll_step_at_edge:
  assumes "in_window su s"
  shows "scroll_step cfg su s =
     (if visible_rows su \<le> index s - scroll_rows_consumed s
      then (if dry_run cfg
            then Inr (visible_rows su - 1, s\<lparr>scroll_rows_consumed := scroll_rows_consumed s + 1\<rparr>)
            else if scroll_delay cfg < 0
            then Inl (ValueError, trace s @ [Scroll (- scroll_clicks_per_row cfg) (list_start_x su) (list_start_y su)])
            else Inr (visible_rows su - 1,
                      s\<lparr>scroll_rows_consumed := scroll_rows_consumed s + 1,
                        trace := trace s @ [Scroll (- scroll_clicks_per_row cfg) (list_start_x su) (list_start_y su),
                                            Sleep (scroll_delay cfg)]\<rparr>))
      else Inr (index s - scroll_rows_consumed s, s))"
proof (cases "visible_rows su \<le> index s - scroll_rows_consumed s")
  case False
  then show ?thesis by (simp add: scroll_step_def)
next
  case True
  with assms have e: "index s - scroll_rows_consumed s = visible_rows su"
    by (simp add: in_window_def)
  then have i: "index s = visible_rows su + scroll_rows_consumed s" by simp
  show ?thesis using True e
    by (simp add: scroll_step_def sleep_def Let_def i)
qed

subsection \<open>Two rows visible: a concrete run\<close>

lemma two_row_setup:
  "place_setup two_row_config (const_world (Some True)) = Inr (two_row_layout, anchor_trace)"
  by (simp add: place_setup_def locate_anchor_def resolve_origin_def resolve_screen_height_def
        input_defs)

lemma two_row_steps:
  "loop_steps 2 two_row_config (const_world (Some True)) two_row_layout (init_state anchor_trace) =
    Inr \<lparr>scroll_rows_consumed = 0, placed = 2, index = 2, trace = two_row_trace\<rparr>"
  by (simp add: eval_nat_numeral eval_defs input_defs)

lemma two_row_scroll:
  "scroll_step two_row_config two_row_layout
     \<lparr>scroll_rows_consumed = 0, placed = 2, index = 2, trace = two_row_trace\<rparr> =
   Inr (1, \<lparr>scroll_rows_consumed = 1, placed = 2, index = 2,
            trace = two_row_trace @ [Scroll (- 3) 10 40, Sleep (3 / 20)]\<rparr>)"
  by (simp add: eval_defs input_defs)

section \<open>Verified properties\<close>

text \<open>
  C1. At every iteration of the loop of \<open>place_objects\<close>, after the scroll
  reconciliation and before the row is classified or clicked, the row in view is the logical
  index minus the rows scrolled so far, and lies in \<open>[0, visible_rows)\<close>, where
  \<open>visible_rows = max 1 ((screen_height - list_start_y) div row_height)\<close> is at least 1;
  and \<open>scroll_rows_consumed\<close> never decreases, neither inside the scroll step nor from one
  iteration to any later one.
\<close>

theorem row_in_view_invariant:
  assumes "place_setup cfg w = Inr (su, tr0)"
      and "loop_steps n cfg w su (init_state tr0) = Inr s"
  shows "1 \<le> visible_rows su
       \<and> visible_rows su =
           max 1 ((fst (resolve_screen_height cfg w []) - list_start_y su) div row_height cfg)
       \<and> (\<forall>riv s1. scroll_step cfg su s = Inr (riv, s1) \<longrightarrow>
             riv = index s - scroll_rows_consumed s1 \<and> 0 \<le> riv \<and> riv < visible_rows su
             \<and> scroll_rows_consumed s \<le> scroll_rows_consumed s1)
       \<and> (\<forall>m s'. loop_steps (n + m) cfg w su (init_state tr0) = Inr s' \<longrightarrow>
             scroll_rows_consumed s \<le> scroll_rows_consumed s')"
proof -
  have v: "1 \<le> visible_rows su" by (rule place_setup_visible [OF assms(1)])
  have w0: "in_window su (init_state tr0)" by (rule in_window_init [OF v])
  have ws: "in_window su s" using loop_steps_window [OF v w0 assms(2)] by simp
  have a: "\<forall>riv s1. scroll_step cfg su s = Inr (riv, s1) \<longrightarrow>
             riv = index s - scroll_rows_consumed s1 \<and> 0 \<le> riv \<and> riv < visible_rows su
             \<and> scroll_rows_consumed s \<le> scroll_rows_consumed s1"
  proof (intro allI impI)
    fix riv s1
    assume "scroll_step cfg su s = Inr (riv, s1)"
    from scroll_step_window [OF v ws this]
    show "riv = index s - scroll_rows_consumed s1 \<and> 0 \<le> riv \<and> riv < visible_rows su
             \<and> scroll_rows_consumed s \<le> scroll_rows_consumed s1"
      by simp
  qed
  have b: "\<forall>m s'. loop_steps (n + m) cfg w su (init_state tr0) = Inr s' \<longrightarrow>
             scroll_rows_consumed s \<le> scroll_rows_consumed s'"
  proof (intro allI impI)
    fix m s'
    assume "loop_steps (n + m) cfg w su (init_state tr0) = Inr s'"
    then have "loop_steps m cfg w su s = Inr s'"
      using assms(2) by (simp add: loop_steps_add)
    from loop_steps_window [OF v ws this] show "scroll_rows_consumed s \<le> scroll_rows_consumed s'"
      by simp
  qed
  from v place_setup_rows [OF assms(1)] a b show ?thesis by blast
qed

theorem row_in_view_invariant_witness:
  "place_setup two_row_config (const_world (Some True)) = Inr (two_row_layout, anchor_trace)
   \<and> loop_steps 2 two_row_config (const_world (Some True)) two_row_layout (init_state anchor_trace) =
       Inr \<lparr>scroll_rows_consumed = 0, placed = 2, index = 2, trace = two_row_trace\<rparr>
   \<and> visible_rows two_row_layout = 2
   \<and> scroll_step two_row_config two_row_layout
       \<lparr>scroll_rows_consumed = 0, placed = 2, index = 2, trace = two_row_trace\<rparr> =
     Inr (1, \<lparr>scroll_rows_consumed = 1, placed = 2, index = 2,
              trace = two_row_trace @ [Scroll (- 3) 10 40, Sleep (3 / 20)]\<rparr>)
   \<and> (1::int) = 2 - 1 \<and> (0::int) \<le> 1 \<and> (1::int) < visible_rows two_row_layout
   \<and> (0::int) \<le> 1"
proof -
  note t = row_in_view_invariant [OF two_row_setup two_row_steps]
  from t have "1 \<le> visible_rows two_row_layout" by blast
  moreover from t two_row_scroll have "(1::int) < visible_rows two_row_layout" by fastforce
  moreover have "visible_rows two_row_layout = 2" by (simp add: two_row_layout_def)
  ultimately show ?thesis using two_row_setup two_row_steps two_row_scroll by simp
qed

text \<open>
  C2. With at least one column per grid row and a positive spacing, the world position
  of placement number \<open>n \<ge> 0\<close> is the origin plus \<open>(n mod per_row) * spacing\<close> across and
  \<open>(n div per_row) * spacing\<close> down; the column lies in \<open>[0, per_row)\<close>; two different
  placement numbers never get the same position; and with 15 per row, spacing 120 and
  origin (0, 0), placement 16 goes to (120, 120).
\<close>

theorem world_pos_grid:
  assumes "1 \<le> per_row cfg" and "0 < spacing_pixels cfg" and "0 \<le> n"
  shows "world_pos cfg po n =
           Inr (fst po + (n mod per_row cfg) * spacing_pixels cfg,
                snd po + (n div per_row cfg) * spacing_pixels cfg)
       \<and> 0 \<le> n mod per_row cfg \<and> n mod per_row cfg < per_row cfg
       \<and> (\<forall>m. 0 \<le> m \<and> m \<noteq> n \<longrightarrow> world_pos cfg po m \<noteq> world_pos cfg po n)
       \<and> world_pos (cfg\<lparr>per_row := 15, spacing_pixels := 120\<rparr>) (0, 0) 16 = Inr (120, 120)"
proof -
  have p: "per_row cfg \<noteq> 0" "0 < per_row cfg" using assms(1) by simp_all
  have a: "world_pos cfg po n =
           Inr (fst po + (n mod per_row cfg) * spacing_pixels cfg,
                snd po + (n div per_row cfg) * spacing_pixels cfg)"
    using p by (simp add: world_pos_def)
  have b: "0 \<le> n mod per_row cfg \<and> n mod per_row cfg < per_row cfg"
    using p by simp
  have c: "\<forall>m. 0 \<le> m \<and> m \<noteq> n \<longrightarrow> world_pos cfg po m \<noteq> world_pos cfg po n"
  proof (intro allI impI notI)
    fix m
    assume m: "0 \<le> m \<and> m \<noteq> n" and e: "world_pos cfg po m = world_pos cfg po n"
    from e p assms(2)
    have "m mod per_row cfg = n mod per_row cfg" "m div per_row cfg = n div per_row cfg"
      by (simp_all add: world_pos_def)
    then have "m = n" by (metis mult_div_mod_eq)
    with m show False by simp
  qed
  have d: "world_pos (cfg\<lparr>per_row := 15, spacing_pixels := 120\<rparr>) (0, 0) 16 = Inr (120, 120)"
    by (simp add: world_pos_def)
  from a b c d show ?thesis by blast
qed

theorem world_pos_grid_witness:
  "1 \<le> per_row (default_config ''anchor.png'')
   \<and> 0 < spacing_pixels (default_config ''anchor.png'')
   \<and> world_pos (default_config ''anchor.png'') (0, 0) 16 = Inr (120, 120)
   \<and> world_pos (default_config ''anchor.png'') (0, 0) 1 \<noteq>
       world_pos (default_config ''anchor.png'') (0, 0) 16"
proof -
  have h: "1 \<le> per_row (default_config ''anchor.png'')"
    "0 < spacing_pixels (default_config ''anchor.png'')" "(0::int) \<le> 16"
    by (simp_all add: default_config_def)
  note t = world_pos_grid [OF h, of "(0, 0)"]
  from t have "\<forall>m. 0 \<le> m \<and> m \<noteq> 16 \<longrightarrow>
       world_pos (default_config ''anchor.png'') (0, 0) m \<noteq>
       world_pos (default_config ''anchor.png'') (0, 0) 16"
    by blast
  from spec [OF this, of 1]
  have "world_pos (default_config ''anchor.png'') (0, 0) 1 \<noteq>
       world_pos (default_config ''anchor.png'') (0, 0) 16"
    by simp
  moreover from t have "world_pos (default_config ''anchor.png'') (0, 0) 16 = Inr (120, 120)"
    by (simp add: default_config_def)
  ultimately show ?thesis using h by simp
qed

subsection \<open>Events of one iteration\<close>

lemma loop_body_raise:
  "scroll_step cfg su s = Inl e \<Longrightarrow> loop_body cfg w su s = Inl e"
  by (simp add: loop_body_def)

lemma loop_body_events:
  assumes "scroll_step cfg su s = Inr (riv, s1)"
  shows "\<exists>evs. result_trace (loop_body cfg w su s) = trace s1 @ evs
         \<and> (\<forall>e\<in>set evs. \<not> is_scroll e) \<and> (dry_run cfg \<longrightarrow> (\<forall>e\<in>set evs. is_print e))"
  using assms
  by (auto simp: loop_body_def result_trace_def is_category_row_def row_has_item_color_def
        click_and_place_def sleep_def world_pos_def Let_def
        split: option.splits sum.splits prod.splits if_splits)

lemma loop_body_consumed:
  assumes "scroll_step cfg su s = Inr (riv, s1)" and "loop_body cfg w su s = Inr s'"
  shows "scroll_rows_consumed s' = scroll_rows_consumed s1"
  using assms
  by (auto simp: loop_body_def Let_def split: sum.splits prod.splits if_splits)

lemma place_setup_trace:
  assumes "place_setup cfg w = Inr (su, tr)"
  shows "\<forall>e\<in>set tr. \<not> is_scroll e"
  using assms
  by (auto simp: place_setup_def locate_anchor_def resolve_origin_def resolve_screen_height_def
        safe_screen_height_def Let_def split: if_splits sum.splits prod.splits option.splits)

lemma loop_body_scrolls:
  assumes "in_window su s" and "scrolls_ok cfg su (trace s)"
  shows "scrolls_ok cfg su (result_trace (loop_body cfg w su s))"
proof (cases "scroll_step cfg su s")
  case (Inl e)
  then have "loop_body cfg w su s = Inl e" by (rule loop_body_raise)
  moreover from Inl scroll_step_at_edge [OF assms(1), of cfg]
  have "snd e = trace s @ [Scroll (- scroll_clicks_per_row cfg) (list_start_x su) (list_start_y su)]"
    by (auto split: if_splits)
  ultimately show ?thesis using assms(2)
    by (cases e) (simp add: result_trace_def scrolls_ok_def)
next
  case (Inr p)
  obtain riv s1 where p: "p = (riv, s1)" by (cases p)
  from Inr p have ss: "scroll_step cfg su s = Inr (riv, s1)" by simp
  from ss scroll_step_at_edge [OF assms(1), of cfg] assms(2)
  have "scrolls_ok cfg su (trace s1)"
    by (auto simp: scrolls_ok_def split: if_splits)
  moreover from loop_body_events [OF ss, of w]
  obtain evs where "result_trace (loop_body cfg w su s) = trace s1 @ evs"
    "\<forall>e\<in>set evs. \<not> is_scroll e" by blast
  ultimately show ?thesis by (auto simp: scrolls_ok_def list_all_iff)
qed

lemma loop_steps_scrolls:
  assumes "1 \<le> visible_rows su"
  shows "in_window su s \<Longrightarrow> scrolls_ok cfg su (trace s)
         \<Longrightarrow> scrolls_ok cfg su (result_trace (loop_steps n cfg w su s))"
proof (induction n arbitrary: s)
  case 0
  then show ?case by (simp add: result_trace_def)
next
  case (Suc n)
  show ?case
  proof (cases "loop_cond cfg s")
    case False
    with Suc.prems show ?thesis by (simp add: result_trace_def)
  next
    case True
    note b = loop_body_scrolls [OF Suc.prems, of w]
    show ?thesis
    proof (cases "loop_body cfg w su s")
      case (Inl e)
      with True b show ?thesis by (simp add: result_trace_def)
    next
      case (Inr s')
      from loop_body_window [OF assms Suc.prems(1) Inr] have "in_window su s'" by simp
      moreover from b Inr have "scrolls_ok cfg su (trace s')" by (simp add: result_trace_def)
      ultimately have "scrolls_ok cfg su (result_trace (loop_steps n cfg w su s'))"
        by (rule Suc.IH)
      with True Inr show ?thesis by simp
    qed
  qed
qed

lemma loop_body_scroll_count:
  assumes "in_window su s" and "\<not> dry_run cfg" and "loop_body cfg w su s = Inr s'"
  shows "int (length (filter is_scroll (trace s'))) - scroll_rows_consumed s' =
         int (length (filter is_scroll (trace s))) - scroll_rows_consumed s"
proof -
  from assms(3) obtain riv s1 where ss: "scroll_step cfg su s = Inr (riv, s1)"
    by (auto simp: loop_body_def split: sum.splits)
  from ss scroll_step_at_edge [OF assms(1), of cfg] assms(2)
  have a: "int (length (filter is_scroll (trace s1))) - scroll_rows_consumed s1 =
         int (length (filter is_scroll (trace s))) - scroll_rows_consumed s"
    by (auto split: if_splits)
  from loop_body_events [OF ss, of w] assms(3)
  obtain evs where "trace s' = trace s1 @ evs" "\<forall>e\<in>set evs. \<not> is_scroll e"
    by (auto simp: result_trace_def)
  then have "filter is_scroll (trace s') = filter is_scroll (trace s1)" by simp
  with a loop_body_consumed [OF ss assms(3)] show ?thesis by simp
qed

lemma loop_steps_scroll_count:
  assumes "1 \<le> visible_rows su" and "\<not> dry_run cfg"
  shows "in_window su s \<Longrightarrow> loop_steps n cfg w su s = Inr s' \<Longrightarrow>
         int (length (filter is_scroll (trace s'))) - scroll_rows_consumed s' =
         int (length (filter is_scroll (trace s))) - scroll_rows_consumed s"
proof (induction n arbitrary: s)
  case 0
  then show ?case by simp
next
  case (Suc n)
  show ?case
  proof (cases "loop_cond cfg s")
    case False
    with Suc.prems show ?thesis by simp
  next
    case True
    with Suc.prems obtain s1 where b: "loop_body cfg w su s = Inr s1"
      and r: "loop_steps n cfg w su s1 = Inr s'"
      by (auto split: sum.splits)
    from loop_body_window [OF assms(1) Suc.prems(1) b] have "in_window su s1" by simp
    from Suc.IH [OF this r] loop_body_scroll_count [OF Suc.prems(1) assms(2) b]
    show ?thesis by simp
  qed
qed

lemma two_row_steps3:
  "loop_steps 3 two_row_config (const_world (Some True)) two_row_layout (init_state anchor_trace) =
    Inr \<lparr>scroll_rows_consumed = 1, placed = 3, index = 3,
        trace = two_row_trace @
          [Scroll (- 3) 10 40, Sleep (3 / 20), PixelMatchesColor 36 78 (142, 125, 18) 10,
           MoveTo 10 66, Click, Sleep (1 / 20), MoveTo 240 0, Click, Sleep (1 / 10)]\<rparr>"
  by (simp add: eval_nat_numeral eval_defs input_defs)

text \<open>
  C10. Every scroll command issued by \<open>place_objects\<close> moves exactly one logical row:
  whenever the scroll branch is taken at the head of a reachable iteration,
  \<open>rows_to_scroll\<close> is 1, the scroll step issues (outside dry-run) one scroll of
  \<open>- scroll_clicks_per_row\<close> at the list position and adds 1 to
  \<open>scroll_rows_consumed\<close>; every scroll command of any run prefix, raised or not, has that
  magnitude; and the number of scroll commands issued equals \<open>scroll_rows_consumed\<close>.
\<close>

theorem scroll_one_row:
  assumes "place_setup cfg w = Inr (su, tr0)"
      and "loop_steps n cfg w su (init_state tr0) = Inr s"
  shows "(visible_rows su \<le> index s - scroll_rows_consumed s \<longrightarrow>
            index s - scroll_rows_consumed s - visible_rows su + 1 = 1
          \<and> scroll_step cfg su s =
              (if dry_run cfg
               then Inr (visible_rows su - 1, s\<lparr>scroll_rows_consumed := scroll_rows_consumed s + 1\<rparr>)
               else if scroll_delay cfg < 0
               then Inl (ValueError, trace s @ [Scroll (- scroll_clicks_per_row cfg) (list_start_x su) (list_start_y su)])
               else Inr (visible_rows su - 1,
                         s\<lparr>scroll_rows_consumed := scroll_rows_consumed s + 1,
                           trace := trace s @ [Scroll (- scroll_clicks_per_row cfg) (list_start_x su) (list_start_y su),
                                               Sleep (scroll_delay cfg)]\<rparr>)))
       \<and> (\<forall>m. scrolls_ok cfg su (result_trace (loop_steps m cfg w su (init_state tr0))))
       \<and> (\<not> dry_run cfg \<longrightarrow> int (length (filter is_scroll (trace s))) = scroll_rows_consumed s)"
proof -
  have v: "1 \<le> visible_rows su" by (rule place_setup_visible [OF assms(1)])
  have w0: "in_window su (init_state tr0)" by (rule in_window_init [OF v])
  have ws: "in_window su s" using loop_steps_window [OF v w0 assms(2)] by simp
  have t0: "filter is_scroll tr0 = []" using place_setup_trace [OF assms(1)] by simp
  have a: "visible_rows su \<le> index s - scroll_rows_consumed s \<longrightarrow>
            index s - scroll_rows_consumed s - visible_rows su + 1 = 1"
    using ws by (simp add: in_window_def)
  have s0: "scrolls_ok cfg su (trace (init_state tr0))"
    using place_setup_trace [OF assms(1)] by (simp add: scrolls_ok_def init_state_def list_all_iff)
  have c: "\<forall>m. scrolls_ok cfg su (result_trace (loop_steps m cfg w su (init_state tr0)))"
    using loop_steps_scrolls [OF v w0 s0] by simp
  have d: "\<not> dry_run cfg \<longrightarrow> int (length (filter is_scroll (trace s))) = scroll_rows_consumed s"
  proof
    assume "\<not> dry_run cfg"
    from loop_steps_scroll_count [OF v this w0 assms(2)] t0
    show "int (length (filter is_scroll (trace s))) = scroll_rows_consumed s"
      by (simp add: init_state_def)
  qed
  from a scroll_step_at_edge [OF ws, of cfg] c d show ?thesis by simp
qed

theorem scroll_one_row_witness:
  "place_setup two_row_config (const_world (Some True)) = Inr (two_row_layout, anchor_trace)
   \<and> loop_steps 3 two_row_config (const_world (Some True)) two_row_layout (init_state anchor_trace) =
       Inr \<lparr>scroll_rows_consumed = 1, placed = 3, index = 3,
           trace = two_row_trace @
             [Scroll (- 3) 10 40, Sleep (3 / 20), PixelMatchesColor 36 78 (142, 125, 18) 10,
              MoveTo 10 66, Click, Sleep (1 / 20), MoveTo 240 0, Click, Sleep (1 / 10)]\<rparr>
   \<and> visible_rows two_row_layout \<le> 3 - 1
   \<and> scrolls_ok two_row_config two_row_layout
         (result_trace (loop_steps 3 two_row_config (const_world (Some True)) two_row_layout
            (init_state anchor_trace)))
   \<and> int (length (filter is_scroll (two_row_trace @
             [Scroll (- 3) 10 40, Sleep (3 / 20), PixelMatchesColor 36 78 (142, 125, 18) 10,
              MoveTo 10 66, Click, Sleep (1 / 20), MoveTo 240 0, Click, Sleep (1 / 10)]))) = 1"
proof -
  note t = scroll_one_row [OF two_row_setup two_row_steps3]
  have d: "\<not> dry_run two_row_config" by (simp add: input_defs)
  from t have "scrolls_ok two_row_config two_row_layout
         (result_trace (loop_steps 3 two_row_config (const_world (Some True)) two_row_layout
            (init_state anchor_trace)))"
    by blast
  moreover from t d have "int (length (filter is_scroll (two_row_trace @
             [Scroll (- 3) 10 40, Sleep (3 / 20), PixelMatchesColor 36 78 (142, 125, 18) 10,
              MoveTo 10 66, Click, Sleep (1 / 20), MoveTo 240 0, Click, Sleep (1 / 10)]))) = 1"
    by simp
  moreover have "visible_rows two_row_layout \<le> 3 - 1" by (simp add: two_row_layout_def)
  ultimately show ?thesis using two_row_setup two_row_steps3 by simp
qed

lemma scroll_step_frame:
  assumes "scroll_step cfg su s = Inr (riv, s1)"
  shows "index s1 = index s \<and> placed s1 = placed s \<and> riv = index s - scroll_rows_consumed s1"
  using assms
  by (auto simp: scroll_step_def Let_def split: if_splits sum.splits)

lemma category_setup:
  "place_setup category_config (const_world (Some True)) = Inr (full_layout, anchor_trace)"
  by (simp add: place_setup_def locate_anchor_def resolve_origin_def resolve_screen_height_def
        input_defs category_config_def full_layout_def)

text \<open>
  C6. With a row height of 26, the list starting at y = 40 and a screen height of 1080, the
  number of visible rows is \<open>(1080 - 40) div 26 = 40\<close>; at logical index 40 with nothing
  scrolled yet, the scroll step computes \<open>rows_to_scroll = 1\<close>, issues exactly one scroll of
  \<open>- scroll_clicks_per_row * 1\<close> at the list position (followed by the scroll pause; in
  dry-run the command and the pause are suppressed), and leaves \<open>scroll_rows_consumed = 1\<close>
  and the row in view 39.
\<close>

theorem capacity_and_first_scroll:
  assumes "place_setup cfg w = Inr (su, tr0)"
      and "row_height cfg = 26" and "list_start_y su = 40" and "screen_height cfg = Some 1080"
      and "index s = 40" and "scroll_rows_consumed s = 0"
      and "0 \<le> scroll_delay cfg"
  shows "visible_rows su = (1080 - 40) div 26 \<and> visible_rows su = 40
       \<and> index s - scroll_rows_consumed s - visible_rows su + 1 = 1
       \<and> scroll_step cfg su s =
           Inr (39, s\<lparr>scroll_rows_consumed := 1,
                      trace := trace s @
                        (if dry_run cfg then []
                         else [Scroll (- scroll_clicks_per_row cfg * 1) (list_start_x su) (list_start_y su),
                               Sleep (scroll_delay cfg)])\<rparr>)"
proof -
  have "fst (resolve_screen_height cfg w []) = 1080"
    using assms(4) by (simp add: resolve_screen_height_def)
  with place_setup_rows [OF assms(1)] assms(2,3) have v: "visible_rows su = 40" by simp
  then have "in_window su s" using assms(5,6) by (simp add: in_window_def)
  from scroll_step_at_edge [OF this, of cfg] v assms(5,6,7)
  show ?thesis by simp
qed

theorem capacity_and_first_scroll_witness:
  "place_setup category_config (const_world (Some True)) = Inr (full_layout, anchor_trace)
   \<and> row_height category_config = 26 \<and> list_start_y full_layout = 40
   \<and> screen_height category_config = Some 1080
   \<and> 0 \<le> scroll_delay category_config
   \<and> visible_rows full_layout = 40
   \<and> scroll_step category_config full_layout
        \<lparr>scroll_rows_consumed = 0, placed = 12, index = 40, trace = []\<rparr> =
      Inr (39, \<lparr>scroll_rows_consumed = 1, placed = 12, index = 40,
                trace = [Scroll (- 3) 10 40, Sleep (3 / 20)]\<rparr>)"
proof -
  have h: "row_height category_config = 26" "list_start_y full_layout = 40"
    "screen_height category_config = Some 1080"
    "index \<lparr>scroll_rows_consumed = 0, placed = 12, index = 40, trace = []\<rparr> = 40"
    "scroll_rows_consumed \<lparr>scroll_rows_consumed = 0, placed = 12, index = 40, trace = []\<rparr> = 0"
    "0 \<le> scroll_delay category_config"
    by (simp_all add: category_config_def default_config_def full_layout_def)
  note t = capacity_and_first_scroll [OF category_setup h]
  from t have "scroll_step category_config full_layout
        \<lparr>scroll_rows_consumed = 0, placed = 12, index = 40, trace = []\<rparr> =
      Inr (39, \<lparr>scroll_rows_consumed = 1, placed = 12, index = 40,
                trace = [Scroll (- 3) 10 40, Sleep (3 / 20)]\<rparr>)"
    by (simp add: category_config_def default_config_def full_layout_def)
  moreover from t have "visible_rows full_layout = 40" by blast
  ultimately show ?thesis using category_setup h by simp
qed

text \<open>
  C4. Outside dry-run, when a category colour is configured and the sample of the category
  icon pixel of the row matches it, the iteration skips the row: the index advances by 1,
  the placed count is unchanged, the only event after the scroll step is that one sample (no
  item-colour sample, no pointer movement, no click), and the outcome is the same whatever
  the item-colour configuration is.
\<close>

theorem category_short_circuit:
  assumes "\<not> dry_run cfg" and "category_color cfg = Some c"
      and "scroll_step cfg su s = Inr (riv, s1)"
      and "pixel_matches_color w (trace s1) (list_start_x su + category_icon_offset_x cfg)
             (list_start_y su + riv * row_height cfg) c (category_color_tolerance cfg) = Some True"
  shows "loop_body cfg w su s =
           Inr (s1\<lparr>index := index s + 1,
                   trace := trace s1 @
                     [PixelMatchesColor (list_start_x su + category_icon_offset_x cfg)
                        (list_start_y su + riv * row_height cfg) c (category_color_tolerance cfg)]\<rparr>)
       \<and> placed s1 = placed s
       \<and> (\<forall>ic r tol ox oy.
            loop_body (cfg\<lparr>item_color := ic, require_item_color := r, item_color_tolerance := tol,
                           item_color_offset_x := ox, item_color_offset_y := oy\<rparr>) w su s =
            loop_body cfg w su s)"
proof -
  note f = scroll_step_frame [OF assms(3)]
  have a: "loop_body cfg w su s =
           Inr (s1\<lparr>index := index s + 1,
                   trace := trace s1 @
                     [PixelMatchesColor (list_start_x su + category_icon_offset_x cfg)
                        (list_start_y su + riv * row_height cfg) c (category_color_tolerance cfg)]\<rparr>)"
    using assms f by (simp add: loop_body_def is_category_row_def Let_def)
  have b: "loop_body (cfg\<lparr>item_color := ic, require_item_color := r, item_color_tolerance := tol,
                           item_color_offset_x := ox, item_color_offset_y := oy\<rparr>) w su s =
            loop_body cfg w su s" for ic r tol ox oy
  proof -
    have "scroll_step (cfg\<lparr>item_color := ic, require_item_color := r, item_color_tolerance := tol,
                           item_color_offset_x := ox, item_color_offset_y := oy\<rparr>) su s = scroll_step cfg su s"
      by (simp add: scroll_step_def Let_def)
    then show ?thesis using assms f a
      by (simp add: loop_body_def is_category_row_def Let_def)
  qed
  from a b f show ?thesis by simp
qed

theorem category_short_circuit_witness:
  "\<not> dry_run category_config \<and> category_color category_config = Some (200, 200, 200)
   \<and> scroll_step category_config full_layout (init_state anchor_trace) =
       Inr (0, init_state anchor_trace)
   \<and> pixel_matches_color (const_world (Some True)) (trace (init_state anchor_trace))
         (list_start_x full_layout + category_icon_offset_x category_config)
         (list_start_y full_layout + 0 * row_height category_config) (200, 200, 200)
         (category_color_tolerance category_config) = Some True
   \<and> loop_body category_config (const_world (Some True)) full_layout (init_state anchor_trace) =
       Inr \<lparr>scroll_rows_consumed = 0, placed = 0, index = 1,
           trace = anchor_trace @ [PixelMatchesColor (- 4) 40 (200, 200, 200) 8]\<rparr>
   \<and> loop_body (category_config\<lparr>item_color := None, require_item_color := False,
                    item_color_tolerance := 0, item_color_offset_x := 0, item_color_offset_y := 0\<rparr>)
         (const_world (Some True)) full_layout (init_state anchor_trace) =
       loop_body category_config (const_world (Some True)) full_layout (init_state anchor_trace)"
proof -
  have h: "\<not> dry_run category_config" "category_color category_config = Some (200, 200, 200)"
    "scroll_step category_config full_layout (init_state anchor_trace) =
       Inr (0, init_state anchor_trace)"
    "pixel_matches_color (const_world (Some True)) (trace (init_state anchor_trace))
         (list_start_x full_layout + category_icon_offset_x category_config)
         (list_start_y full_layout + 0 * row_height category_config) (200, 200, 200)
         (category_color_tolerance category_config) = Some True"
    by (simp_all add: category_config_def default_config_def full_layout_def const_world_def
          scroll_step_def init_state_def)
  note t = category_short_circuit [OF h]
  from t have "loop_body category_config (const_world (Some True)) full_layout (init_state anchor_trace) =
       Inr \<lparr>scroll_rows_consumed = 0, placed = 0, index = 1,
           trace = anchor_trace @ [PixelMatchesColor (- 4) 40 (200, 200, 200) 8]\<rparr>"
    by (simp add: category_config_def default_config_def full_layout_def init_state_def)
  moreover from t have "loop_body (category_config\<lparr>item_color := None, require_item_color := False,
                    item_color_tolerance := 0, item_color_offset_x := 0, item_color_offset_y := 0\<rparr>)
         (const_world (Some True)) full_layout (init_state anchor_trace) =
       loop_body category_config (const_world (Some True)) full_layout (init_state anchor_trace)"
    by blast
  ultimately show ?thesis using h by simp
qed

text \<open>
  C5, as stated, fails: a sampling failure is treated as a non-match, but a non-match of the
  category test does not skip the row. Here the category sample of the first row raises, the
  item colour matches, and the row is clicked and placed.
\<close>

theorem sampling_failure_counterexample:
  "pixel_matches_color flaky_world anchor_trace (- 4) 40 (200, 200, 200) 8 = None
   \<and> is_category_row flaky_world anchor_trace 10 40 category_config =
       (False, anchor_trace @ [PixelMatchesColor (- 4) 40 (200, 200, 200) 8])
   \<and> loop_body category_config flaky_world full_layout (init_state anchor_trace) =
       Inr \<lparr>scroll_rows_consumed = 0, placed = 1, index = 1,
           trace = anchor_trace @
             [PixelMatchesColor (- 4) 40 (200, 200, 200) 8,
              PixelMatchesColor 36 52 (142, 125, 18) 10,
              MoveTo 10 40, Click, Sleep (1 / 20), MoveTo 0 0, Click, Sleep (1 / 10)]\<rparr>"
  by (simp add: eval_defs flaky_world_def category_config_def default_config_def full_layout_def)

text \<open>
  C5, amended. When pixel sampling raises inside \<open>is_category_row\<close> or
  \<open>row_has_item_color\<close>, the function returns \<open>False\<close> (a non-match) after the one
  sample, and no exception leaves it. A failure inside \<open>row_has_item_color\<close> makes the
  iteration skip the row: the index advances, the placed count is unchanged and only the
  diagnostic is printed. A failure inside \<open>is_category_row\<close> makes the row count as not a
  category: the iteration goes on to the item-colour check and, when that check passes,
  clicks and places the row.
\<close>

theorem sampling_failure_is_non_match:
  "(category_color cfg = Some c \<and>
    pixel_matches_color w tr (lx + category_icon_offset_x cfg) ly c
      (category_color_tolerance cfg) = None \<longrightarrow>
    is_category_row w tr lx ly cfg =
      (False, tr @ [PixelMatchesColor (lx + category_icon_offset_x cfg) ly c
                      (category_color_tolerance cfg)]))
   \<and> (item_color cfg = Some ic \<and> require_item_color cfg \<and>
       pixel_matches_color w tr (lx + item_color_offset_x cfg) (ly + item_color_offset_y cfg) ic
         (item_color_tolerance cfg) = None \<longrightarrow>
       row_has_item_color w tr lx ly cfg =
         (False, tr @ [PixelMatchesColor (lx + item_color_offset_x cfg)
                         (ly + item_color_offset_y cfg) ic (item_color_tolerance cfg)]))
   \<and> (\<not> dry_run cfg \<and> scroll_step cfg su s = Inr (riv, s1)
       \<and> is_category_row w (trace s1) (list_start_x su) (list_start_y su + riv * row_height cfg) cfg
           = (False, tr2)
       \<and> item_color cfg = Some ic \<and> require_item_color cfg
       \<and> pixel_matches_color w tr2 (list_start_x su + item_color_offset_x cfg)
            (list_start_y su + riv * row_height cfg + item_color_offset_y cfg) ic
            (item_color_tolerance cfg) = None
       \<longrightarrow> loop_body cfg w su s =
             Inr (s1\<lparr>index := index s + 1,
                     trace := tr2 @
                       [PixelMatchesColor (list_start_x su + item_color_offset_x cfg)
                          (list_start_y su + riv * row_height cfg + item_color_offset_y cfg) ic
                          (item_color_tolerance cfg),
                        Print (''Skipping row '' @ show_int (index s)
                               @ '': item color not detected at ''
                               @ show_point (list_start_x su, list_start_y su + riv * row_height cfg)
                               @ ''.'')]\<rparr>)
           \<and> placed s1 = placed s)
   \<and> (\<not> dry_run cfg \<and> scroll_step cfg su s = Inr (riv, s1)
       \<and> category_color cfg = Some c
       \<and> pixel_matches_color w (trace s1) (list_start_x su + category_icon_offset_x cfg)
            (list_start_y su + riv * row_height cfg) c (category_color_tolerance cfg) = None
       \<and> row_has_item_color w
            (trace s1 @ [PixelMatchesColor (list_start_x su + category_icon_offset_x cfg)
                           (list_start_y su + riv * row_height cfg) c (category_color_tolerance cfg)])
            (list_start_x su) (list_start_y su + riv * row_height cfg) cfg = (True, tr3)
       \<and> world_pos cfg (origin su) (placed s) = Inr wp
       \<and> click_and_place cfg (list_start_x su, list_start_y su + riv * row_height cfg) wp tr3 = Inr tr4
       \<longrightarrow> loop_body cfg w su s =
             Inr (s1\<lparr>placed := placed s + 1, index := index s + 1, trace := tr4\<rparr>))"
proof -
  have a: "category_color cfg = Some c \<and>
    pixel_matches_color w tr (lx + category_icon_offset_x cfg) ly c
      (category_color_tolerance cfg) = None \<longrightarrow>
    is_category_row w tr lx ly cfg =
      (False, tr @ [PixelMatchesColor (lx + category_icon_offset_x cfg) ly c
                      (category_color_tolerance cfg)])"
    by (simp add: is_category_row_def Let_def)
  have b: "item_color cfg = Some ic \<and> require_item_color cfg \<and>
       pixel_matches_color w tr (lx + item_color_offset_x cfg) (ly + item_color_offset_y cfg) ic
         (item_color_tolerance cfg) = None \<longrightarrow>
       row_has_item_color w tr lx ly cfg =
         (False, tr @ [PixelMatchesColor (lx + item_color_offset_x cfg)
                         (ly + item_color_offset_y cfg) ic (item_color_tolerance cfg)])"
    by (simp add: row_has_item_color_def Let_def)
  have c: "\<not> dry_run cfg \<and> scroll_step cfg su s = Inr (riv, s1)
       \<and> is_category_row w (trace s1) (list_start_x su) (list_start_y su + riv * row_height cfg) cfg
           = (False, tr2)
       \<and> item_color cfg = Some ic \<and> require_item_color cfg
       \<and> pixel_matches_color w tr2 (list_start_x su + item_color_offset_x cfg)
            (list_start_y su + riv * row_height cfg + item_color_offset_y cfg) ic
            (item_color_tolerance cfg) = None
       \<longrightarrow> loop_body cfg w su s =
             Inr (s1\<lparr>index := index s + 1,
                     trace := tr2 @
                       [PixelMatchesColor (list_start_x su + item_color_offset_x cfg)
                          (list_start_y su + riv * row_height cfg + item_color_offset_y cfg) ic
                          (item_color_tolerance cfg),
                        Print (''Skipping row '' @ show_int (index s)
                               @ '': item color not detected at ''
                               @ show_point (list_start_x su, list_start_y su + riv * row_height cfg)
                               @ ''.'')]\<rparr>)
           \<and> placed s1 = placed s"
  proof
    assume h: "\<not> dry_run cfg \<and> scroll_step cfg su s = Inr (riv, s1)
       \<and> is_category_row w (trace s1) (list_start_x su) (list_start_y su + riv * row_height cfg) cfg
           = (False, tr2)
       \<and> item_color cfg = Some ic \<and> require_item_color cfg
       \<and> pixel_matches_color w tr2 (list_start_x su + item_color_offset_x cfg)
            (list_start_y su + riv * row_height cfg + item_color_offset_y cfg) ic
            (item_color_tolerance cfg) = None"
    then have ss: "scroll_step cfg su s = Inr (riv, s1)" by simp
    note f = scroll_step_frame [OF ss]
    from h f show "loop_body cfg w su s =
             Inr (s1\<lparr>index := index s + 1,
                     trace := tr2 @
                       [PixelMatchesColor (list_start_x su + item_color_offset_x cfg)
                          (list_start_y su + riv * row_height cfg + item_color_offset_y cfg) ic
                          (item_color_tolerance cfg),
                        Print (''Skipping row '' @ show_int (index s)
                               @ '': item color not detected at ''
                               @ show_point (list_start_x su, list_start_y su + riv * row_height cfg)
                               @ ''.'')]\<rparr>)
           \<and> placed s1 = placed s"
      by (simp add: loop_body_def row_has_item_color_def Let_def)
  qed
  have d: "\<not> dry_run cfg \<and> scroll_step cfg su s = Inr (riv, s1)
       \<and> category_color cfg = Some c
       \<and> pixel_matches_color w (trace s1) (list_start_x su + category_icon_offset_x cfg)
            (list_start_y su + riv * row_height cfg) c (category_color_tolerance cfg) = None
       \<and> row_has_item_color w
            (trace s1 @ [PixelMatchesColor (list_start_x su + category_icon_offset_x cfg)
                           (list_start_y su + riv * row_height cfg) c (category_color_tolerance cfg)])
            (list_start_x su) (list_start_y su + riv * row_height cfg) cfg = (True, tr3)
       \<and> world_pos cfg (origin su) (placed s) = Inr wp
       \<and> click_and_place cfg (list_start_x su, list_start_y su + riv * row_height cfg) wp tr3 = Inr tr4
       \<longrightarrow> loop_body cfg w su s =
             Inr (s1\<lparr>placed := placed s + 1, index := index s + 1, trace := tr4\<rparr>)"
  proof
    assume h: "\<not> dry_run cfg \<and> scroll_step cfg su s = Inr (riv, s1)
       \<and> category_color cfg = Some c
       \<and> pixel_matches_color w (trace s1) (list_start_x su + category_icon_offset_x cfg)
            (list_start_y su + riv * row_height cfg) c (category_color_tolerance cfg) = None
       \<and> row_has_item_color w
            (trace s1 @ [PixelMatchesColor (list_start_x su + category_icon_offset_x cfg)
                           (list_start_y su + riv * row_height cfg) c (category_color_tolerance cfg)])
            (list_start_x su) (list_start_y su + riv * row_height cfg) cfg = (True, tr3)
       \<and> world_pos cfg (origin su) (placed s) = Inr wp
       \<and> click_and_place cfg (list_start_x su, list_start_y su + riv * row_height cfg) wp tr3 = Inr tr4"
    then have ss: "scroll_step cfg su s = Inr (riv, s1)" by simp
    note f = scroll_step_frame [OF ss]
    from h f show "loop_body cfg w su s =
             Inr (s1\<lparr>placed := placed s + 1, index := index s + 1, trace := tr4\<rparr>)"
      by (simp add: loop_body_def is_category_row_def Let_def)
  qed
  from a b c d show ?thesis by blast
qed

theorem sampling_failure_is_non_match_witness:
  "category_color category_config = Some (200, 200, 200)
   \<and> pixel_matches_color (const_world None) anchor_trace (10 + category_icon_offset_x category_config)
        40 (200, 200, 200) (category_color_tolerance category_config) = None
   \<and> is_category_row (const_world None) anchor_trace 10 40 category_config =
        (False, anchor_trace @ [PixelMatchesColor (- 4) 40 (200, 200, 200) 8])
   \<and> row_has_item_color (const_world None) anchor_trace 10 40 category_config =
        (False, anchor_trace @ [PixelMatchesColor 36 52 (142, 125, 18) 10])
   \<and> loop_body category_config (const_world None) full_layout (init_state anchor_trace) =
        Inr \<lparr>scroll_rows_consumed = 0, placed = 0, index = 1,
            trace = anchor_trace @
              [PixelMatchesColor (- 4) 40 (200, 200, 200) 8,
               PixelMatchesColor 36 52 (142, 125, 18) 10,
               Print ''Skipping row 0: item color not detected at (10, 40).'']\<rparr>"
proof -
  note t = sampling_failure_is_non_match [where cfg = category_config and w = "const_world None"
      and c = "(200, 200, 200)" and ic = "(142, 125, 18)" and tr = anchor_trace and lx = 10
      and ly = 40 and su = full_layout and s = "init_state anchor_trace" and riv = 0
      and ?s1.0 = "init_state anchor_trace"
      and ?tr2.0 = "anchor_trace @ [PixelMatchesColor (- 4) 40 (200, 200, 200) 8]"]
  have h: "category_color category_config = Some (200, 200, 200)"
    "pixel_matches_color (const_world None) anchor_trace (10 + category_icon_offset_x category_config)
        40 (200, 200, 200) (category_color_tolerance category_config) = None"
    by (simp_all add: category_config_def default_config_def const_world_def)
  from t have a: "is_category_row (const_world None) anchor_trace 10 40 category_config =
        (False, anchor_trace @ [PixelMatchesColor (- 4) 40 (200, 200, 200) 8])"
    by (simp add: category_config_def default_config_def const_world_def)
  from t have b: "row_has_item_color (const_world None) anchor_trace 10 40 category_config =
        (False, anchor_trace @ [PixelMatchesColor 36 52 (142, 125, 18) 10])"
    by (simp add: category_config_def default_config_def const_world_def)
  from t have c: "loop_body category_config (const_world None) full_layout (init_state anchor_trace) =
        Inr \<lparr>scroll_rows_consumed = 0, placed = 0, index = 1,
            trace = anchor_trace @
              [PixelMatchesColor (- 4) 40 (200, 200, 200) 8,
               PixelMatchesColor 36 52 (142, 125, 18) 10,
               Print ''Skipping row 0: item color not detected at (10, 40).'']\<rparr>"
    by (simp add: eval_defs category_config_def default_config_def const_world_def full_layout_def
          show_int_def show_point_def show_nat.simps)
  from h a b c show ?thesis by simp
qed

subsection \<open>Dry-run\<close>

lemmas run_defs = place_objects_def while_loop_def run_trace_def place_setup_def locate_anchor_def
  resolve_origin_def resolve_screen_height_def safe_screen_height_def result_trace_def
  show_int_def show_point_def show_nat.simps

lemma dry_place_setup:
  assumes "dry_run cfg"
  shows "place_setup cfg w = Inl (AttributeError ''Box'', [])"
  using assms by (simp add: place_setup_def)


text \<open>
  C7. The dry-run mode is meant to short-circuit before any call that needs the screen and
  only print the coordinates it would use. The code does not get that far: in dry-run mode
  \<open>place_objects\<close> raises \<open>AttributeError\<close> at line 138, for every configuration and
  every world, before the pointer or the screen is queried and before anything is printed;
  the run has no event at all.
\<close>

theorem dry_run_raises:
  assumes "dry_run cfg"
  shows "place_objects n cfg w = Some (Inl (AttributeError ''Box'', []))
       \<and> run_trace n cfg w = []"
  by (simp add: place_objects_def run_trace_def dry_place_setup [OF assms])

theorem dry_run_raises_witness:
  "dry_run dry_config
   \<and> place_objects 1 dry_config (const_world None) = Some (Inl (AttributeError ''Box'', []))
   \<and> run_trace 1 dry_config (const_world None) = []"
proof -
  have d: "dry_run dry_config" by (simp add: dry_config_def)
  from dry_run_raises [OF d, of 1 "const_world None"] d show ?thesis by simp
qed



subsection \<open>The returned value\<close>

text \<open>
  C8, as stated, fails: \<open>place_objects\<close> has no \<open>return\<close> statement. A run that places
  two objects returns \<open>None\<close>, not 2.
\<close>

theorem place_objects_return_counterexample:
  "place_objects 2 (two_row_config\<lparr>limit := Some 2\<rparr>) (const_world (Some True)) =
     Some (Inr (PyNone, \<lparr>scroll_rows_consumed = 0, placed = 2, index = 2, trace = two_row_trace\<rparr>))
   \<and> PyNone \<noteq> PyInt 2"
  by (simp add: run_defs eval_defs input_defs eval_nat_numeral)

text \<open>
  C8, amended. Whenever \<open>place_objects\<close> returns, it returns \<open>None\<close>; it returns only
  when a limit is configured and the placed count has reached it, and that count stays in
  a local variable.
\<close>

theorem place_objects_returns_none:
  assumes "place_objects n cfg w = Some (Inr (v, s))"
  shows "v = PyNone \<and> \<not> loop_cond cfg s \<and> (\<exists>l. limit cfg = Some l \<and> l \<le> placed s)"
  using assms
  by (auto simp: place_objects_def while_loop_def loop_cond_def
           split: sum.splits option.splits prod.splits if_splits)

lemma single_config_run:
  "place_objects 1 single_config (const_world (Some True)) =
     Some (Inr (PyNone, \<lparr>scroll_rows_consumed = 0, placed = 1, index = 1,
        trace = anchor_trace @
          [PixelMatchesColor 36 52 (142, 125, 18) 10, MoveTo 10 40, Click, Sleep (1 / 20),
           MoveTo 0 0, Click, Sleep (1 / 10)]\<rparr>))"
  by (simp add: run_defs eval_defs input_defs single_config_def)

theorem place_objects_returns_none_witness:
  "place_objects 1 single_config (const_world (Some True)) =
     Some (Inr (PyNone, \<lparr>scroll_rows_consumed = 0, placed = 1, index = 1,
        trace = anchor_trace @
          [PixelMatchesColor 36 52 (142, 125, 18) 10, MoveTo 10 40, Click, Sleep (1 / 20),
           MoveTo 0 0, Click, Sleep (1 / 10)]\<rparr>))
   \<and> limit single_config = Some 1
   \<and> \<not> loop_cond single_config \<lparr>scroll_rows_consumed = 0, placed = 1, index = 1,
        trace = anchor_trace @
          [PixelMatchesColor 36 52 (142, 125, 18) 10, MoveTo 10 40, Click, Sleep (1 / 20),
           MoveTo 0 0, Click, Sleep (1 / 10)]\<rparr>"
proof -
  note t = place_objects_returns_none [OF single_config_run]
  have "limit single_config = Some 1" by (simp add: single_config_def)
  with t single_config_run show ?thesis by simp
qed

subsection \<open>Reaching the limit\<close>



















subsection \<open>A run that skips two rows\<close>

lemmas mixed_defs = mixed_config_def mixed_world_def category_config_def default_config_def
  full_layout_def anchor_trace_def mixed_trace_def





lemma mixed_class1:
  "row_class_at mixed_config mixed_world full_layout 
       \<lparr>scroll_rows_consumed = 0, placed = 0, index = 1,
        trace = anchor_trace @
          [PixelMatchesColor (- 4) 40 (200, 200, 200) 8]\<rparr> =
     Some MissingItemSignal"
  by (simp add: eval_defs mixed_defs row_class_at_def classify_def)











end
